theory Spec2Isabelle
  imports Complex_Main
begin

section \<open>Argument bots: the agents of argubots.py\<close>

text \<open>
  The module defines three agent classes whose \<open>response\<close> method produces the next
  utterance of a dialogue: \<open>KialoAgent\<close> and \<open>KialoAgent2\<close>, which answer from a Kialo
  claim graph, and \<open>RAG_Agent\<close>, which asks a chat-completion service. It also defines
  the helper \<open>kialo_responses\<close>.

  A call of \<open>response\<close> reads the dialogue it is given, calls collaborators (the Kialo
  graph, the \<open>random\<close> module, the logger, the chat client) and either returns a string
  or raises. The model makes all of that explicit: a method is a function from the
  world before the call to its outcome (\<open>Inl\<close> an exception, \<open>Inr\<close> the returned value)
  and the world after it.
\<close>

subsection \<open>Values\<close>

text \<open>The exceptions that the module raises itself or lets through.\<close>

datatype error =
    AssertionError string   \<comment> \<open>a failed \<open>assert\<close>, with its message\<close>
  | IndexError              \<comment> \<open>\<open>seq[0]\<close> or \<open>random.choice(seq)\<close> on an empty sequence\<close>
  | ValueError string       \<comment> \<open>the built-in ValueError, with its message\<close>
  | TypeError string        \<comment> \<open>a keyword argument given twice in a call, with its name\<close>
  | APIError string         \<comment> \<open>an exception class of the chat client's own\<close>

text \<open>A dialogue is a sequence of turns, each a dictionary with the keys
  \<open>speaker\<close> and \<open>content\<close>.\<close>

record Turn =
  speaker :: string
  content :: string

type_synonym Dialogue = "Turn list"

text \<open>A chat message is a dictionary with the keys \<open>role\<close> and \<open>content\<close>.\<close>

record Message =
  role :: string
  m_content :: string

text \<open>Keyword arguments: a dictionary from option names to values (as rendered by
  an f-string), in insertion order.\<close>

type_synonym kwargs = "(string \<times> string) list"

text \<open>
  The completion a chat client returns. \<open>message_content\<close> is
  \<open>choice.message.content\<close>, which is a string or \<open>None\<close>; \<open>shown\<close> is the text an
  f-string renders for the whole completion object.
\<close>

record Choice =
  message_content :: "string option"
  finish_reason :: string

record ChatCompletion =
  choices :: "Choice list"
  shown :: string

text \<open>
  The Kialo class lives in another module. The agents use four of its members, taken
  here as parameters. \<open>random_chain\<close> walks the graph at random, so its result is a
  function of a number drawn from the random generator. \<open>closest_claims s n kind\<close> takes
  the query, the optional keyword \<open>n\<close> (\<open>None\<close> when the caller leaves the default) and
  the keyword \<open>kind\<close>. \<open>pros\<close> and \<open>cons\<close> map a claim to a list of claims, the empty
  list for a claim without such edges.
\<close>

record Kialo =
  random_chain :: "nat \<Rightarrow> string list"
  closest_claims :: "string \<Rightarrow> nat option \<Rightarrow> string \<Rightarrow> string list"
  pros :: "string \<Rightarrow> string list"
  cons :: "string \<Rightarrow> string list"

text \<open>The attributes of an \<open>LLMAgent\<close> that \<open>RAG_Agent.response\<close> reads. \<open>client_create\<close>
  is \<open>self.client.chat.completions.create\<close>: the completion that the service returns
  for a request, or the exception that the client raises, of whatever class.\<close>

record LLMAgent =
  name :: string
  model :: string
  kwargs_format :: kwargs
  kwargs_llm :: kwargs
  client_create :: "Message list \<Rightarrow> string \<Rightarrow> kwargs \<Rightarrow> error + ChatCompletion"

subsection \<open>The world of a call\<close>

text \<open>What a call does to its collaborators, in the order it does it.\<close>

datatype event =
    RandomChain                               \<comment> \<open>\<open>kialo.random_chain()\<close>\<close>
  | ClosestClaims string "nat option" string   \<comment> \<open>\<open>kialo.closest_claims(s, n=.., kind=..)\<close>\<close>
  | LogInfo string                            \<comment> \<open>\<open>log.info(msg)\<close>\<close>
  | LogDebug string                           \<comment> \<open>\<open>log.debug(msg)\<close>\<close>
  | ChatCreate "Message list" string kwargs   \<comment> \<open>\<open>chat.completions.create(messages=.., model=.., **kw)\<close>\<close>

text \<open>
  \<open>dialogue\<close> is the Dialogue object that the caller passes as \<open>d\<close>; it is part of the
  world so that a write to it would show. \<open>events\<close> records the calls made so far.
  \<open>rng\<close> is the sequence of numbers that the \<open>random\<close> module will draw and \<open>rng_pos\<close> the
  number of draws made. \<open>log_level\<close> is the logger's effective level.
\<close>

record world =
  dialogue :: Dialogue
  events :: "event list"
  rng :: "nat \<Rightarrow> nat"
  rng_pos :: nat
  log_level :: nat

type_synonym 'a prog = "world \<Rightarrow> (error + 'a) \<times> world"

definition ret :: "'a \<Rightarrow> 'a prog" where
  "ret x = (\<lambda>w. (Inr x, w))"

definition raise :: "error \<Rightarrow> 'a prog" where
  "raise e = (\<lambda>w. (Inl e, w))"

text \<open>Sequencing: an exception ends the method, nothing catches it.\<close>

definition then_do :: "'a prog \<Rightarrow> ('a \<Rightarrow> 'b prog) \<Rightarrow> 'b prog" where
  "then_do m f = (\<lambda>w. case m w of (Inl e, w') \<Rightarrow> (Inl e, w') | (Inr x, w') \<Rightarrow> f x w')"

definition lift :: "error + 'a \<Rightarrow> 'a prog" where
  "lift r = (\<lambda>w. (r, w))"

definition read_dialogue :: "Dialogue prog" where
  "read_dialogue = (\<lambda>w. (Inr (dialogue w), w))"

definition emit :: "event \<Rightarrow> unit prog" where
  "emit e = (\<lambda>w. (Inr (), w\<lparr>events := events w @ [e]\<rparr>))"

definition next_draw :: "nat prog" where
  "next_draw = (\<lambda>w. (Inr (rng w (rng_pos w)), w\<lparr>rng_pos := Suc (rng_pos w)\<rparr>))"

definition get_log_level :: "nat prog" where
  "get_log_level = (\<lambda>w. (Inr (log_level w), w))"

subsection \<open>Python primitives\<close>

text \<open>\<open>seq[i]\<close>: a negative index counts from the end, an index out of range raises.\<close>

definition getitem :: "'a list \<Rightarrow> int \<Rightarrow> error + 'a" where
  "getitem seq i =
     (if 0 \<le> i \<and> i < int (length seq) then Inr (seq ! nat i)
      else if i < 0 \<and> - i \<le> int (length seq) then Inr (seq ! nat (int (length seq) + i))
      else Inl IndexError)"

text \<open>\<open>sep.join(parts)\<close>.\<close>

fun join :: "string \<Rightarrow> string list \<Rightarrow> string" where
  "join sep [] = []"
| "join sep [p] = p"
| "join sep (p # q # ps) = p @ sep @ join sep (q # ps)"

text \<open>\<open>s * n\<close> on a string.\<close>

definition str_mul :: "string \<Rightarrow> nat \<Rightarrow> string" where
  "str_mul s n = concat (replicate n s)"

text \<open>\<open>s.startswith(p)\<close>.\<close>

definition startswith :: "string \<Rightarrow> string \<Rightarrow> bool" where
  "startswith s p = (take (length p) s = p)"

text \<open>\<open>a | b\<close> on dictionaries: the keys of \<open>a\<close> in their order, with the values of \<open>b\<close>
  where \<open>b\<close> has the key, then the keys that only \<open>b\<close> has.\<close>

definition dict_union :: "kwargs \<Rightarrow> kwargs \<Rightarrow> kwargs" where
  "dict_union a b =
     map (\<lambda>(k, v). (k, case map_of b k of Some v' \<Rightarrow> v' | None \<Rightarrow> v)) a
     @ filter (\<lambda>(k, v). k \<notin> fst ` set a) b"

text \<open>
  A call \<open>f(k1=.., k2=.., **kw)\<close>: a key of \<open>kw\<close> that is also one of the keywords written
  out makes Python raise TypeError before \<open>f\<close> is entered; the error names the first such
  key of \<open>kw\<close>.
\<close>

definition duplicate_keywords :: "string list \<Rightarrow> kwargs \<Rightarrow> string list" where
  "duplicate_keywords written kw = filter (\<lambda>k. k \<in> set written) (map fst kw)"

definition check_keywords :: "string list \<Rightarrow> kwargs \<Rightarrow> unit prog" where
  "check_keywords written kw =
     (case duplicate_keywords written kw of
        [] \<Rightarrow> ret ()
      | k # _ \<Rightarrow> raise (TypeError k))"

text \<open>
  \<open>random.choice(seq)\<close> raises IndexError on an empty sequence and otherwise returns
  \<open>seq[i]\<close> for an index \<open>i\<close> that the generator draws below \<open>len(seq)\<close>. The draw is the
  next number of \<open>rng\<close>, brought below \<open>len(seq)\<close>.
\<close>

definition random_choice :: "'a list \<Rightarrow> 'a prog" where
  "random_choice seq =
     (if seq = [] then raise IndexError
      else then_do next_draw (\<lambda>r. ret (seq ! (r mod length seq))))"

text \<open>\<open>assert cond, msg\<close>.\<close>

definition assert :: "bool \<Rightarrow> string \<Rightarrow> unit prog" where
  "assert cond msg = (if cond then ret () else raise (AssertionError msg))"

definition log_info :: "string \<Rightarrow> unit prog" where
  "log_info msg = emit (LogInfo msg)"

definition log_debug :: "string \<Rightarrow> unit prog" where
  "log_debug msg = emit (LogDebug msg)"

definition DEBUG :: nat where
  "DEBUG = 10"

definition newline :: string where
  "newline = [CHR 0x0A]"

definition tab :: string where
  "tab = [CHR 0x09]"

definition dquote :: string where
  "dquote = [CHR 0x22]"

definition squote :: string where
  "squote = [CHR 0x27]"

subsection \<open>Calls on the collaborators\<close>

definition call_random_chain :: "Kialo \<Rightarrow> string list prog" where
  "call_random_chain kialo =
     then_do (emit RandomChain) (\<lambda>_.
     then_do next_draw (\<lambda>r.
     ret (random_chain kialo r)))"

definition call_closest_claims :: "Kialo \<Rightarrow> string \<Rightarrow> nat option \<Rightarrow> string \<Rightarrow> string list prog" where
  "call_closest_claims kialo s n kind =
     then_do (emit (ClosestClaims s n kind)) (\<lambda>_.
     ret (closest_claims kialo s n kind))"

definition chat_completions_create ::
  "LLMAgent \<Rightarrow> Message list \<Rightarrow> string \<Rightarrow> kwargs \<Rightarrow> ChatCompletion prog" where
  "chat_completions_create self messages mdl kw =
     then_do (check_keywords [''messages'', ''model''] kw) (\<lambda>_.
     then_do (emit (ChatCreate messages mdl kw)) (\<lambda>_.
     lift (client_create self messages mdl kw)))"

subsection \<open>KialoAgent.response\<close>

definition no_claims_msg :: string where
  "no_claims_msg = ''No claims to choose from; is Kialo data structure empty?''"

definition chose_msg :: "string \<Rightarrow> string" where
  "chose_msg neighbor =
     ''[black on bright_green]Chose similar claim from Kialo:'' @ newline @ neighbor
     @ ''[/black on bright_green]''"

definition KialoAgent_response :: "Kialo \<Rightarrow> string prog" where
  "KialoAgent_response kialo =
     then_do read_dialogue (\<lambda>d.
     if length d = 0 then
       then_do (call_random_chain kialo) (\<lambda>chain.
       lift (getitem chain 0))
     else
       then_do (lift (getitem d (- 1))) (\<lambda>last_turn.
       let previous_turn = content last_turn in
       then_do (call_closest_claims kialo previous_turn (Some 3) ''has_cons'') (\<lambda>neighbors.
       then_do (assert (neighbors \<noteq> []) no_claims_msg) (\<lambda>_.
       then_do (random_choice neighbors) (\<lambda>neighbor.
       then_do (log_info (chose_msg neighbor)) (\<lambda>_.
       random_choice (cons kialo neighbor)))))))"

subsection \<open>KialoAgent2.response\<close>

text \<open>The query of the second agent:
  \<open>";".join([d[i]['content']*(i+1) for i in range(len(d))])\<close>.\<close>

definition query2 :: "Dialogue \<Rightarrow> string" where
  "query2 d = join '';'' (map (\<lambda>i. str_mul (content (d ! i)) (i + 1)) [0..<length d])"

definition KialoAgent2_response :: "Kialo \<Rightarrow> string prog" where
  "KialoAgent2_response kialo =
     then_do read_dialogue (\<lambda>d.
     if length d = 0 then
       then_do (call_random_chain kialo) (\<lambda>chain.
       lift (getitem chain 0))
     else
       let previous_turn = query2 d in
       then_do (call_closest_claims kialo previous_turn (Some 3) ''has_cons'') (\<lambda>neighbors.
       then_do (assert (neighbors \<noteq> []) no_claims_msg) (\<lambda>_.
       then_do (random_choice neighbors) (\<lambda>neighbor.
       then_do (log_info (chose_msg neighbor)) (\<lambda>_.
       random_choice (cons kialo neighbor))))))"

subsection \<open>kialo\_responses\<close>

definition pros_header :: string where
  "pros_header = ''Some arguments from other Kialo users in favor of that claim:''"

definition cons_header :: string where
  "cons_header = ''Some arguments from other Kialo users against that claim:''"

definition bullet :: string where
  "bullet = newline @ tab @ ''* ''"

definition kialo_responses :: "Kialo \<Rightarrow> string \<Rightarrow> string prog" where
  "kialo_responses kialo s =
     then_do (call_closest_claims kialo s None ''has_cons'') (\<lambda>found.
     then_do (lift (getitem found 0)) (\<lambda>c.
     let result0 = ''One possibly related claim from the Kialo debate website:''
                   @ newline @ tab @ dquote @ c @ dquote;
         result1 = (if pros kialo c \<noteq> []
                    then result0 @ newline @ join bullet (pros_header # pros kialo c)
                    else result0);
         result2 = (if cons kialo c \<noteq> []
                    then result1 @ newline @ join bullet (cons_header # cons kialo c)
                    else result1)
     in ret result2))"

subsection \<open>RAG\_Agent.response\<close>

definition no_content_msg :: string where
  "no_content_msg =
     ''No content string returned from {self.kwargs_llm['' @ squote @ ''client'' @ squote @ '']}''"

definition pretty_message :: "Message \<Rightarrow> string" where
  "pretty_message m =
     ''[black on bright_yellow]('' @ role m @ '')[/black on bright_yellow] '' @ m_content m"

definition response_msg :: "string \<Rightarrow> string" where
  "response_msg body =
     ''Response from LLM:'' @ newline @ ''[black on white]'' @ body @ ''[/black on white]''"

text \<open>The text of the first log line:
  \<open>f"Calling LLM {self.model}{pretty_kws}:\n{pretty_messages}"\<close>.\<close>

definition calling_msg :: "LLMAgent \<Rightarrow> Message list \<Rightarrow> string" where
  "calling_msg self messages =
     (let pretty_messages = join newline (map pretty_message messages);
          pretty_kws = (if kwargs_llm self \<noteq> []
                        then '' with '' @ join '', '' (map (\<lambda>(key, val). key @ ''='' @ val)
                                                        (kwargs_llm self))
                        else [])
      in ''Calling LLM '' @ model self @ pretty_kws @ '':'' @ newline @ pretty_messages)"

text \<open>The clean-up of the returned content: the ellipsis after a completion cut off by
  the length limit, then the removal of the speaker label.\<close>

definition clean_up :: "LLMAgent \<Rightarrow> Choice \<Rightarrow> string \<Rightarrow> string" where
  "clean_up self choice content0 =
     (let content1 = (if finish_reason choice = ''length'' then content0 @ '' ...''
                      else content0);
          speaker_label = name self @ '': ''
      in if startswith content1 speaker_label
         then drop (length speaker_label) content1
         else content1)"

text \<open>
  \<open>dialogue_to_openai\<close> is a function of another module, taken as a parameter: it
  formats the dialogue into a sequence of messages. It is called as
  \<open>dialogue_to_openai(d, speaker=self.name, **self.kwargs_format)\<close>, and the service as
  \<open>create(messages=messages, model=self.model, **(self.kwargs_llm | kwargs))\<close>. The method
  takes a Kialo graph and extra keyword arguments.
\<close>

definition RAG_Agent_response ::
  "(Dialogue \<Rightarrow> string \<Rightarrow> kwargs \<Rightarrow> Message list) \<Rightarrow> LLMAgent \<Rightarrow> Kialo \<Rightarrow> kwargs \<Rightarrow> string prog" where
  "RAG_Agent_response dialogue_to_openai self kialo kw =
     then_do read_dialogue (\<lambda>d.
     then_do (check_keywords [''speaker''] (kwargs_format self)) (\<lambda>_.
     let messages = dialogue_to_openai d (name self) (kwargs_format self) in
     then_do (log_info (calling_msg self messages)) (\<lambda>_.
     then_do (chat_completions_create self messages (model self)
                (dict_union (kwargs_llm self) kw)) (\<lambda>response.
     then_do (log_debug (response_msg (shown response))) (\<lambda>_.
     then_do (lift (getitem (choices response) 0)) (\<lambda>choice.
     case message_content choice of
       None \<Rightarrow> raise (ValueError no_content_msg)
     | Some content0 \<Rightarrow>
         let content = clean_up self choice content0 in
         then_do get_log_level (\<lambda>level.
         then_do (if level > DEBUG then log_info (response_msg content) else ret ()) (\<lambda>_.
         ret content))))))))"

subsection \<open>Observing a call\<close>

text \<open>The events that a method adds to the world it starts in.\<close>

definition calls_of :: "'a prog \<Rightarrow> world \<Rightarrow> event list" where
  "calls_of p w = drop (length (events w)) (events (snd (p w)))"

text \<open>The arguments of the \<open>closest_claims\<close> calls among some events, in order.\<close>

fun closest_queries :: "event list \<Rightarrow> (string \<times> nat option \<times> string) list" where
  "closest_queries [] = []"
| "closest_queries (ClosestClaims s n kind # es) = (s, n, kind) # closest_queries es"
| "closest_queries (e # es) = closest_queries es"

text \<open>The message sequences of the chat-completion requests among some events.\<close>

fun chat_requests :: "event list \<Rightarrow> Message list list" where
  "chat_requests [] = []"
| "chat_requests (ChatCreate messages mdl kw # es) = messages # chat_requests es"
| "chat_requests (e # es) = chat_requests es"

subsection \<open>The random draws as a distribution\<close>

text \<open>The world in which the next two numbers of the generator are \<open>a\<close> and \<open>b\<close>.\<close>

definition with_draws :: "world \<Rightarrow> nat \<Rightarrow> nat \<Rightarrow> world" where
  "with_draws w a b =
     w\<lparr>rng := (\<lambda>k. if k = rng_pos w then a else if k = Suc (rng_pos w) then b else rng w k)\<rparr>"

text \<open>The probability of an event that depends on the next two numbers of the
  generator, when the two are independent and each takes the values below \<open>N\<close> with the
  same probability: the share of the pairs below \<open>N\<close> on which the event holds.\<close>

definition chance :: "nat \<Rightarrow> (nat \<Rightarrow> nat \<Rightarrow> bool) \<Rightarrow> rat" where
  "chance N event =
     of_nat (length (filter (\<lambda>(a, b). event a b) (List.product [0..<N] [0..<N])))
       / of_nat (N * N)"

text \<open>What a run of \<open>KialoAgent.response\<close> shows of its two picks: the neighbor it logs as
  chosen, and the reply it returns.\<close>

definition picks_neighbor :: "Kialo \<Rightarrow> world \<Rightarrow> string \<Rightarrow> bool" where
  "picks_neighbor kialo w c =
     (LogInfo (chose_msg c) \<in> set (calls_of (KialoAgent_response kialo) w))"

definition replies :: "Kialo \<Rightarrow> world \<Rightarrow> string \<Rightarrow> bool" where
  "replies kialo w r = (fst (KialoAgent_response kialo w) = Inr r)"

subsection \<open>The request and its answer\<close>

text \<open>The method's request reaches the service, which returns the completion \<open>response\<close>
  for it: no keyword is given twice in the calls of \<open>dialogue_to_openai\<close> and of the
  client, and the client's result for the messages, model and keywords of the request
  is \<open>response\<close>.\<close>

definition service_returns ::
  "(Dialogue \<Rightarrow> string \<Rightarrow> kwargs \<Rightarrow> Message list) \<Rightarrow> LLMAgent \<Rightarrow> kwargs \<Rightarrow> world
     \<Rightarrow> ChatCompletion \<Rightarrow> bool" where
  "service_returns dialogue_to_openai self kw w response =
     (duplicate_keywords [''speaker''] (kwargs_format self) = []
      \<and> duplicate_keywords [''messages'', ''model''] (dict_union (kwargs_llm self) kw) = []
      \<and> client_create self (dialogue_to_openai (dialogue w) (name self) (kwargs_format self))
           (model self) (dict_union (kwargs_llm self) kw) = Inr response)"

subsection \<open>The query policies in the words of the specification\<close>

text \<open>Policy A: the content of the last turn.\<close>

definition policy_A :: "Dialogue \<Rightarrow> string" where
  "policy_A d = content (last d)"

text \<open>Policy B: going through the turns in order, turn \<open>i\<close> contributes its content
  repeated \<open>i + 1\<close> times; the contributions are put together with \<open>;\<close> between them.\<close>

fun repeated_from :: "nat \<Rightarrow> Dialogue \<Rightarrow> string list" where
  "repeated_from i [] = []"
| "repeated_from i (t # ts) = concat (replicate (i + 1) (content t)) # repeated_from (Suc i) ts"

definition policy_B :: "Dialogue \<Rightarrow> string" where
  "policy_B d = join '';'' (repeated_from 0 d)"

subsection \<open>Concrete graphs, dialogues and worlds\<close>

text \<open>A graph whose claim \<open>C1\<close> has the cons \<open>C1a\<close> and \<open>C1b\<close> and on which every query
  resolves to \<open>C1\<close>; and a graph without claims.\<close>

definition c1_kialo :: Kialo where
  "c1_kialo = \<lparr>random_chain = (\<lambda>r. [''C1'', ''C1a'']),
               closest_claims = (\<lambda>s n kind. [''C1'']),
               pros = (\<lambda>c. []),
               cons = (\<lambda>c. if c = ''C1'' then [''C1a'', ''C1b''] else [])\<rparr>"

definition empty_kialo :: Kialo where
  "empty_kialo = \<lparr>random_chain = (\<lambda>r. []),
                  closest_claims = (\<lambda>s n kind. []),
                  pros = (\<lambda>c. []),
                  cons = (\<lambda>c. [])\<rparr>"

text \<open>A fresh world around a dialogue: no events yet, the generator draws 0, 1, 2, ...,
  the logger is at level INFO.\<close>

definition world_of :: "Dialogue \<Rightarrow> world" where
  "world_of d = \<lparr>dialogue = d, events = [], rng = (\<lambda>k. k), rng_pos = 0, log_level = 20\<rparr>"

definition one_turn :: Dialogue where
  "one_turn = [\<lparr>speaker = ''Bob'', content = ''Hello''\<rparr>]"

definition two_turns :: Dialogue where
  "two_turns = [\<lparr>speaker = ''Bob'', content = ''ab''\<rparr>, \<lparr>speaker = ''Akiki'', content = ''c''\<rparr>]"

text \<open>A stand-in for \<open>dialogue_to_openai\<close>: the agent's own turns become assistant
  messages, the other turns user messages.\<close>

definition plain_messages :: "Dialogue \<Rightarrow> string \<Rightarrow> kwargs \<Rightarrow> Message list" where
  "plain_messages d who fmt =
     map (\<lambda>t. \<lparr>role = (if speaker t = who then ''assistant'' else ''user''),
              m_content = content t\<rparr>) d"

text \<open>Three services: one whose completion is cut off right after the speaker label,
  one that answers in full, one whose completion has no text.\<close>

definition cut_off_completion :: ChatCompletion where
  "cut_off_completion =
     \<lparr>choices = [\<lparr>message_content = Some ''Alice:'', finish_reason = ''length''\<rparr>],
      shown = ''ChatCompletion(cut off)''\<rparr>"

definition full_completion :: ChatCompletion where
  "full_completion =
     \<lparr>choices = [\<lparr>message_content = Some ''Alice: Why?'', finish_reason = ''stop''\<rparr>],
      shown = ''ChatCompletion(full)''\<rparr>"

definition silent_completion :: ChatCompletion where
  "silent_completion =
     \<lparr>choices = [\<lparr>message_content = None, finish_reason = ''tool_calls''\<rparr>],
      shown = ''ChatCompletion(silent)''\<rparr>"

definition rag_alice :: "ChatCompletion \<Rightarrow> LLMAgent" where
  "rag_alice completion =
     \<lparr>name = ''Alice'', model = ''gpt'', kwargs_format = [], kwargs_llm = [],
      client_create = (\<lambda>messages mdl kw. Inr completion)\<rparr>"

text \<open>An agent whose client refuses every request with a ValueError of its own.\<close>

definition refused_msg :: string where
  "refused_msg = ''Expected a non-empty value''"

definition rag_refused :: LLMAgent where
  "rag_refused =
     \<lparr>name = ''Alice'', model = ''gpt'', kwargs_format = [], kwargs_llm = [],
      client_create = (\<lambda>messages mdl kw. Inl (ValueError refused_msg))\<rparr>"

section \<open>Properties\<close>

subsection \<open>Running the claim-graph agents\<close>

lemmas prog_defs = ret_def raise_def then_do_def lift_def read_dialogue_def emit_def
  next_draw_def get_log_level_def random_choice_def assert_def log_info_def log_debug_def
  call_random_chain_def call_closest_claims_def chat_completions_create_def
  check_keywords_def

lemma getitem_last: "d \<noteq> [] \<Longrightarrow> getitem d (- 1) = Inr (last d)"
  by (cases d rule: rev_cases) (auto simp: getitem_def nth_append)

lemma getitem_first: "getitem seq 0 = (case seq of [] \<Rightarrow> Inl IndexError | x # _ \<Rightarrow> Inr x)"
  by (cases seq) (auto simp: getitem_def)

text \<open>On an empty dialogue both agents call \<open>random_chain\<close> and index its result.\<close>

lemma KialoAgent_empty:
  assumes "dialogue w = []"
  shows "KialoAgent_response kialo w =
     (getitem (random_chain kialo (rng w (rng_pos w))) 0,
      w\<lparr>events := events w @ [RandomChain], rng_pos := Suc (rng_pos w)\<rparr>)"
  using assms by (simp add: KialoAgent_response_def prog_defs)

lemma KialoAgent2_empty:
  assumes "dialogue w = []"
  shows "KialoAgent2_response kialo w =
     (getitem (random_chain kialo (rng w (rng_pos w))) 0,
      w\<lparr>events := events w @ [RandomChain], rng_pos := Suc (rng_pos w)\<rparr>)"
  using assms by (simp add: KialoAgent2_response_def prog_defs)

text \<open>On a non-empty dialogue the two agents differ in the query only.\<close>

lemma KialoAgent_nonempty:
  assumes "dialogue w \<noteq> []"
  shows "KialoAgent_response kialo w =
     (let q = content (last (dialogue w));
          neighbors = closest_claims kialo q (Some 3) ''has_cons'';
          w1 = w\<lparr>events := events w @ [ClosestClaims q (Some 3) ''has_cons'']\<rparr>
      in if neighbors = [] then (Inl (AssertionError no_claims_msg), w1)
         else let neighbor = neighbors ! (rng w (rng_pos w) mod length neighbors);
                  w2 = w1\<lparr>rng_pos := Suc (rng_pos w),
                          events := events w1 @ [LogInfo (chose_msg neighbor)]\<rparr>
              in if cons kialo neighbor = [] then (Inl IndexError, w2)
                 else (Inr (cons kialo neighbor
                              ! (rng w (Suc (rng_pos w)) mod length (cons kialo neighbor))),
                       w2\<lparr>rng_pos := Suc (Suc (rng_pos w))\<rparr>))"
  using assms by (simp add: KialoAgent_response_def prog_defs getitem_last Let_def)

lemma KialoAgent2_nonempty:
  assumes "dialogue w \<noteq> []"
  shows "KialoAgent2_response kialo w =
     (let q = query2 (dialogue w);
          neighbors = closest_claims kialo q (Some 3) ''has_cons'';
          w1 = w\<lparr>events := events w @ [ClosestClaims q (Some 3) ''has_cons'']\<rparr>
      in if neighbors = [] then (Inl (AssertionError no_claims_msg), w1)
         else let neighbor = neighbors ! (rng w (rng_pos w) mod length neighbors);
                  w2 = w1\<lparr>rng_pos := Suc (rng_pos w),
                          events := events w1 @ [LogInfo (chose_msg neighbor)]\<rparr>
              in if cons kialo neighbor = [] then (Inl IndexError, w2)
                 else (Inr (cons kialo neighbor
                              ! (rng w (Suc (rng_pos w)) mod length (cons kialo neighbor))),
                       w2\<lparr>rng_pos := Suc (Suc (rng_pos w))\<rparr>))"
  using assms by (simp add: KialoAgent2_response_def prog_defs Let_def)

text \<open>The list comprehension of \<open>query2\<close> walks the turns with a running index.\<close>

lemma repeated_from_map:
  "map (\<lambda>i. str_mul (content (d ! i)) (i + k + 1)) [0..<length d] = repeated_from k d"
proof (induction d arbitrary: k)
  case Nil
  then show ?case by simp
next
  case (Cons t ts)
  have "map (\<lambda>i. str_mul (content ((t # ts) ! i)) (i + k + 1)) [0..<length (t # ts)]
      = str_mul (content t) (k + 1)
        # map (\<lambda>i. str_mul (content (ts ! i)) (i + Suc k + 1)) [0..<length ts]"
    by (simp add: upt_conv_Cons map_Suc_upt [symmetric] del: upt_Suc)
  with Cons.IH [of "Suc k"] show ?case by (simp add: str_mul_def)
qed

lemma query2_policy_B: "query2 d = policy_B d"
  using repeated_from_map [of d 0] by (simp add: query2_def policy_B_def)

subsection \<open>Counting draws\<close>

text \<open>Among the numbers below a multiple of the length of a list, each position of the
  list is the remainder of equally many; so the elements equal to \<open>c\<close> are hit by a share
  of the numbers that is their share of the list.\<close>

lemma count_positions:
  "length (filter (\<lambda>i. xs ! i = c) [0..<length xs]) = count_list xs c"
proof -
  have "count_list xs c = length (filter ((=) c) (map ((!) xs) [0..<length xs]))"
    by (simp add: map_nth count_list_eq_length_filter)
  also have "\<dots> = length (filter (\<lambda>i. c = xs ! i) [0..<length xs])"
    by (simp add: filter_map comp_def)
  also have "\<dots> = length (filter (\<lambda>i. xs ! i = c) [0..<length xs])"
    by (rule arg_cong [where f = length], rule filter_cong) auto
  finally show ?thesis by simp
qed


lemma count_block:
  assumes "xs \<noteq> []"
  shows "length (filter (\<lambda>a. xs ! (a mod length xs) = c)
                   [length xs * k..<length xs * k + length xs])
           = count_list xs c"
proof -
  let ?n = "length xs"
  have "map (\<lambda>i. i + ?n * k) [0..<?n] = [?n * k..<?n + ?n * k]"
    by (rule map_add_upt)
  then have b: "[?n * k..<?n * k + ?n] = map (\<lambda>i. i + ?n * k) [0..<?n]"
    by (simp only: add.commute [of "?n * k" ?n])
  have "length (filter (\<lambda>a. xs ! (a mod ?n) = c) (map (\<lambda>i. i + ?n * k) [0..<?n]))
               = length (filter (\<lambda>i. xs ! ((i + ?n * k) mod ?n) = c) [0..<?n])"
    by (simp only: filter_map comp_def length_map)
  also have "\<dots> = length (filter (\<lambda>i. xs ! i = c) [0..<?n])"
    by (rule arg_cong [where f = length], rule filter_cong) simp_all
  finally show ?thesis by (simp only: b count_positions)
qed


lemma count_draws:
  assumes "xs \<noteq> []"
  shows "length (filter (\<lambda>a. xs ! (a mod length xs) = c) [0..<length xs * k])
           = k * count_list xs c"
proof (induction k)
  case 0
  then show ?case by simp
next
  case (Suc k)
  have "[0..<length xs * k + length xs]
          = [0..<length xs * k] @ [length xs * k..<length xs * k + length xs]"
    by (rule upt_add_eq_append) simp
  moreover have "length xs * Suc k = length xs * k + length xs" by simp
  ultimately have "[0..<length xs * Suc k]
          = [0..<length xs * k] @ [length xs * k..<length xs * k + length xs]"
    by (simp only:)
  then have "length (filter (\<lambda>a. xs ! (a mod length xs) = c) [0..<length xs * Suc k])
      = length (filter (\<lambda>a. xs ! (a mod length xs) = c) [0..<length xs * k])
        + length (filter (\<lambda>a. xs ! (a mod length xs) = c)
                    [length xs * k..<length xs * k + length xs])"
    by (simp only: filter_append length_append)
  with Suc count_block [OF assms, of c k] show ?case by simp
qed

lemma count_pairs:
  "length (filter (\<lambda>(a, b). P a \<and> Q b) (List.product as bs))
     = length (filter P as) * length (filter Q bs)"
proof (induction as)
  case Nil
  then show ?case by simp
next
  case (Cons a as)
  have "length (filter (\<lambda>(a, b). P a \<and> Q b) (map (Pair a) bs))
          = (if P a then length (filter Q bs) else 0)"
    by (simp add: filter_map comp_def)
  with Cons show ?case by simp
qed


lemma chance_product:
  assumes "0 < N"
    and "length (filter P [0..<N]) * n = N * p"
    and "length (filter Q [0..<N]) * m = N * q"
    and "0 < n" and "0 < m"
  shows "chance N (\<lambda>a b. P a \<and> Q b) = of_nat p / of_nat n * (of_nat q / of_nat m)"
proof -
  let ?f = "length (filter (\<lambda>(a, b). P a \<and> Q b) (List.product [0..<N] [0..<N]))"
  have "?f * (n * m) = (length (filter P [0..<N]) * n) * (length (filter Q [0..<N]) * m)"
    by (simp add: count_pairs)
  also have "\<dots> = (p * q) * (N * N)"
    by (simp add: assms(2,3))
  finally have "(of_nat (?f * (n * m)) :: rat) = of_nat ((p * q) * (N * N))"
    by (simp only:)
  then have "(of_nat ?f :: rat) * (of_nat n * of_nat m) = of_nat p * of_nat q * of_nat (N * N)"
    by (simp only: of_nat_mult)
  moreover have "(of_nat (N * N) :: rat) \<noteq> 0" "(of_nat n :: rat) \<noteq> 0" "(of_nat m :: rat) \<noteq> 0"
    using assms(1,4,5) by simp_all
  ultimately have "(of_nat ?f :: rat) / of_nat (N * N) = of_nat p / of_nat n * (of_nat q / of_nat m)"
    by (simp add: field_simps)
  then show ?thesis by (simp only: chance_def)
qed


lemma dvd_prod_list_member: "x \<in> set xs \<Longrightarrow> f x dvd prod_list (map f xs)"
  for f :: "'a \<Rightarrow> nat"
  by (induction xs) auto

lemma prod_list_positive: "\<forall>x \<in> set xs. 0 < f x \<Longrightarrow> 0 < prod_list (map f xs)"
  for f :: "'a \<Rightarrow> nat"
  by (induction xs) auto

lemma draw_range_exists:
  assumes "neighbors \<noteq> []" and "\<forall>c \<in> set neighbors. cons kialo c \<noteq> []"
  defines "N \<equiv> length neighbors * prod_list (map (\<lambda>c. length (cons kialo c)) neighbors)"
  shows "0 < N \<and> length neighbors dvd N \<and> (\<forall>c \<in> set neighbors. length (cons kialo c) dvd N)"
proof -
  have "0 < prod_list (map (\<lambda>c. length (cons kialo c)) neighbors)"
    using assms(2) by (intro prod_list_positive) simp
  with assms(1) have "0 < N" by (simp add: N_def)
  moreover have "length (cons kialo c) dvd N" if "c \<in> set neighbors" for c
    using dvd_prod_list_member [OF that, of "\<lambda>c. length (cons kialo c)"]
    by (simp add: N_def)
  ultimately show ?thesis by (simp add: N_def)
qed

subsection \<open>The reply to a non-empty dialogue\<close>

lemma chose_msg_inj: "chose_msg x = chose_msg y \<longleftrightarrow> x = y"
  by (simp add: chose_msg_def)

lemma run_with_draws:
  assumes "dialogue w \<noteq> []"
    and "neighbors = closest_claims kialo (content (last (dialogue w))) (Some 3) ''has_cons''"
    and "neighbors \<noteq> []"
    and "\<forall>c \<in> set neighbors. cons kialo c \<noteq> []"
  shows "fst (KialoAgent_response kialo (with_draws w a b))
           = Inr (cons kialo (neighbors ! (a mod length neighbors))
                    ! (b mod length (cons kialo (neighbors ! (a mod length neighbors)))))"
    and "calls_of (KialoAgent_response kialo) (with_draws w a b)
           = [ClosestClaims (content (last (dialogue w))) (Some 3) ''has_cons'',
              LogInfo (chose_msg (neighbors ! (a mod length neighbors)))]"
proof -
  have "neighbors ! (a mod length neighbors) \<in> set neighbors"
    using assms(3) by simp
  with assms(4) have ne: "cons kialo (neighbors ! (a mod length neighbors)) \<noteq> []"
    by blast
  have d: "dialogue (with_draws w a b) \<noteq> []"
    using assms(1) by (simp add: with_draws_def)
  show "fst (KialoAgent_response kialo (with_draws w a b))
           = Inr (cons kialo (neighbors ! (a mod length neighbors))
                    ! (b mod length (cons kialo (neighbors ! (a mod length neighbors)))))"
    using assms(3) ne unfolding assms(2) KialoAgent_nonempty [OF d]
    by (simp add: with_draws_def Let_def)
  show "calls_of (KialoAgent_response kialo) (with_draws w a b)
           = [ClosestClaims (content (last (dialogue w))) (Some 3) ''has_cons'',
              LogInfo (chose_msg (neighbors ! (a mod length neighbors)))]"
    using assms(3) ne unfolding assms(2) calls_of_def KialoAgent_nonempty [OF d]
    by (simp add: with_draws_def Let_def)
qed

lemma picks_with_draws:
  assumes "dialogue w \<noteq> []"
    and "neighbors = closest_claims kialo (content (last (dialogue w))) (Some 3) ''has_cons''"
    and "neighbors \<noteq> []"
    and "\<forall>c \<in> set neighbors. cons kialo c \<noteq> []"
  shows "picks_neighbor kialo (with_draws w a b) c
           \<longleftrightarrow> neighbors ! (a mod length neighbors) = c"
  by (auto simp add: picks_neighbor_def run_with_draws(2) [OF assms] chose_msg_inj)

lemma replies_with_draws:
  assumes "dialogue w \<noteq> []"
    and "neighbors = closest_claims kialo (content (last (dialogue w))) (Some 3) ''has_cons''"
    and "neighbors \<noteq> []"
    and "\<forall>c \<in> set neighbors. cons kialo c \<noteq> []"
  shows "picks_neighbor kialo (with_draws w a b) c \<and> replies kialo (with_draws w a b) r
           \<longleftrightarrow> neighbors ! (a mod length neighbors) = c
               \<and> cons kialo c ! (b mod length (cons kialo c)) = r"
  by (auto simp add: picks_with_draws [OF assms] replies_def run_with_draws(1) [OF assms])


lemma with_draws_self: "with_draws w (rng w (rng_pos w)) (rng w (Suc (rng_pos w))) = w"
proof -
  have "(\<lambda>k. if k = rng_pos w then rng w (rng_pos w)
             else if k = Suc (rng_pos w) then rng w (Suc (rng_pos w)) else rng w k) = rng w"
    by (rule ext) simp
  then show ?thesis by (simp add: with_draws_def)
qed

lemma count_draws_dvd:
  assumes "xs \<noteq> []" and "length xs dvd N"
  shows "length (filter (\<lambda>a. xs ! (a mod length xs) = c) [0..<N]) * length xs
           = N * count_list xs c"
proof -
  from assms(2) obtain k where "N = length xs * k" by (rule dvdE)
  with count_draws [OF assms(1), of c k] show ?thesis by simp
qed

lemma chance_choice:
  assumes "0 < N" and "xs \<noteq> []" and "length xs dvd N"
    and "ys \<noteq> []" and "length ys dvd N"
  shows "chance N (\<lambda>a b. xs ! (a mod length xs) = c \<and> ys ! (b mod length ys) = r)
           = of_nat (count_list xs c) / of_nat (length xs)
             * (of_nat (count_list ys r) / of_nat (length ys))"
  using assms
  by (intro chance_product count_draws_dvd) simp_all

lemma chance_first_choice:
  assumes "0 < N" and "xs \<noteq> []" and "length xs dvd N"
  shows "chance N (\<lambda>a b. xs ! (a mod length xs) = c)
           = of_nat (count_list xs c) / of_nat (length xs)"
proof -
  have "chance N (\<lambda>a b. xs ! (a mod length xs) = c \<and> True)
          = of_nat (count_list xs c) / of_nat (length xs) * (of_nat 1 / of_nat 1)"
    using assms by (intro chance_product count_draws_dvd) simp_all
  then show ?thesis by simp
qed

text \<open>
  Claim C1: for a non-empty dialogue, \<open>KialoAgent.response\<close> picks one neighbor uniformly
  at random among the claims that \<open>closest_claims(last turn's content, n=3,
  kind='has_cons')\<close> returns and then returns one of that neighbor's con-claims, chosen
  uniformly at random. The result of \<open>closest_claims\<close> is taken as the method's assertion
  and the contract of \<open>kind='has_cons'\<close> leave it: not empty, and every claim in it has a
  con-claim.

  The run picks a neighbor \<open>c\<close> of the list and replies with a con-claim of \<open>c\<close>. With the
  two numbers of the generator independent and uniform below \<open>N\<close>, \<open>N\<close> a multiple of the
  lengths of the lists chosen from, the neighbor \<open>c\<close> is picked with probability
  (occurrences of \<open>c\<close> among the neighbors) / (number of neighbors), and picked together
  with the reply \<open>r\<close> with that probability times
  (occurrences of \<open>r\<close> among the cons of \<open>c\<close>) / (number of cons of \<open>c\<close>): every position of
  either list is as likely as any other. In particular, when the neighbors are \<open>["C1"]\<close>
  and the cons of \<open>C1\<close> are \<open>C1a\<close> and \<open>C1b\<close>, the reply is \<open>C1a\<close> or \<open>C1b\<close>.
\<close>

theorem KialoAgent_response_picks:
  assumes "dialogue w \<noteq> []"
    and "neighbors = closest_claims kialo (content (last (dialogue w))) (Some 3) ''has_cons''"
    and "neighbors \<noteq> []"
    and "\<forall>c \<in> set neighbors. cons kialo c \<noteq> []"
    and "0 < N"
    and "length neighbors dvd N"
    and "\<forall>c \<in> set neighbors. length (cons kialo c) dvd N"
  shows "(\<exists>c \<in> set neighbors. \<exists>r \<in> set (cons kialo c).
            picks_neighbor kialo w c \<and> replies kialo w r)
       \<and> chance N (\<lambda>a b. picks_neighbor kialo (with_draws w a b) c)
           = of_nat (count_list neighbors c) / of_nat (length neighbors)
       \<and> (c \<in> set neighbors \<longrightarrow>
            chance N (\<lambda>a b. picks_neighbor kialo (with_draws w a b) c
                             \<and> replies kialo (with_draws w a b) r)
              = of_nat (count_list neighbors c) / of_nat (length neighbors)
                * (of_nat (count_list (cons kialo c) r) / of_nat (length (cons kialo c))))
       \<and> (neighbors = [''C1''] \<and> cons kialo ''C1'' = [''C1a'', ''C1b'']
            \<longrightarrow> fst (KialoAgent_response kialo w) \<in> {Inr ''C1a'', Inr ''C1b''})"
proof -
  note run = assms(1-4)
  define i where "i = rng w (rng_pos w) mod length neighbors"
  define j where "j = rng w (Suc (rng_pos w)) mod length (cons kialo (neighbors ! i))"
  have i: "neighbors ! i \<in> set neighbors"
    using assms(3) by (simp add: i_def)
  with assms(4) have "cons kialo (neighbors ! i) \<noteq> []" by blast
  then have j: "cons kialo (neighbors ! i) ! j \<in> set (cons kialo (neighbors ! i))"
    by (simp add: j_def)
  have reply: "fst (KialoAgent_response kialo w) = Inr (cons kialo (neighbors ! i) ! j)"
    using run_with_draws(1) [OF run, of "rng w (rng_pos w)" "rng w (Suc (rng_pos w))"]
    by (simp add: with_draws_self i_def j_def)
  have "picks_neighbor kialo w (neighbors ! i)"
    using picks_with_draws [OF run, of "rng w (rng_pos w)" "rng w (Suc (rng_pos w))"
        "neighbors ! i"]
    by (simp add: with_draws_self i_def)
  with reply i j have first: "\<exists>c \<in> set neighbors. \<exists>r \<in> set (cons kialo c).
            picks_neighbor kialo w c \<and> replies kialo w r"
    unfolding replies_def by blast
  have second: "chance N (\<lambda>a b. picks_neighbor kialo (with_draws w a b) c)
           = of_nat (count_list neighbors c) / of_nat (length neighbors)"
    unfolding picks_with_draws [OF run]
    using assms(5,3,6) by (rule chance_first_choice)
  have third: "chance N (\<lambda>a b. picks_neighbor kialo (with_draws w a b) c
                             \<and> replies kialo (with_draws w a b) r)
              = of_nat (count_list neighbors c) / of_nat (length neighbors)
                * (of_nat (count_list (cons kialo c) r) / of_nat (length (cons kialo c)))"
    if "c \<in> set neighbors"
  proof -
    from that assms(4,7) have "cons kialo c \<noteq> []" "length (cons kialo c) dvd N"
      by blast+
    with assms(5,3,6) show ?thesis
      unfolding replies_with_draws [OF run] by (intro chance_choice)
  qed
  have fourth: "fst (KialoAgent_response kialo w) \<in> {Inr ''C1a'', Inr ''C1b''}"
    if "neighbors = [''C1'']" "cons kialo ''C1'' = [''C1a'', ''C1b'']"
  proof -
    from that i have "neighbors ! i = ''C1''" by simp
    with that j reply show ?thesis by auto
  qed
  from first second third fourth show ?thesis by blast
qed


text \<open>The example of the claim: one turn, the graph with \<open>C1\<close>, numbers below 2. \<open>C1\<close> is
  picked with probability 1, and each of its two cons is the reply with probability 1/2.\<close>

theorem KialoAgent_response_picks_witness:
  "dialogue (world_of one_turn) \<noteq> []
   \<and> closest_claims c1_kialo (content (last (dialogue (world_of one_turn)))) (Some 3) ''has_cons''
       = [''C1'']
   \<and> cons c1_kialo ''C1'' = [''C1a'', ''C1b'']
   \<and> length [''C1''] dvd (2::nat)
   \<and> length (cons c1_kialo ''C1'') dvd (2::nat)
   \<and> chance 2 (\<lambda>a b. picks_neighbor c1_kialo (with_draws (world_of one_turn) a b) ''C1'') = 1
   \<and> chance 2 (\<lambda>a b. picks_neighbor c1_kialo (with_draws (world_of one_turn) a b) ''C1''
                       \<and> replies c1_kialo (with_draws (world_of one_turn) a b) ''C1a'') = 1 / 2
   \<and> chance 2 (\<lambda>a b. picks_neighbor c1_kialo (with_draws (world_of one_turn) a b) ''C1''
                       \<and> replies c1_kialo (with_draws (world_of one_turn) a b) ''C1b'') = 1 / 2
   \<and> fst (KialoAgent_response c1_kialo (world_of one_turn)) \<in> {Inr ''C1a'', Inr ''C1b''}"
proof -
  have d: "dialogue (world_of one_turn) \<noteq> []"
    by (simp add: world_of_def one_turn_def)
  have n: "[''C1''] = closest_claims c1_kialo (content (last (dialogue (world_of one_turn))))
                        (Some 3) ''has_cons''"
    by (simp add: c1_kialo_def)
  have ne: "[''C1''] \<noteq> []" by simp
  have c: "cons c1_kialo ''C1'' = [''C1a'', ''C1b'']"
    by (simp add: c1_kialo_def)
  then have cs: "\<forall>c \<in> set [''C1'']. cons c1_kialo c \<noteq> []" by simp
  have N: "0 < (2::nat)" by simp
  have dn: "length [''C1''] dvd (2::nat)" by simp
  have dc2: "length (cons c1_kialo ''C1'') dvd (2::nat)"
    by (simp add: c numeral_2_eq_2)
  then have dc: "\<forall>c \<in> set [''C1'']. length (cons c1_kialo c) dvd (2::nat)" by simp
  note claim = KialoAgent_response_picks [OF d n ne cs N dn dc]
  have p1: "chance 2 (\<lambda>a b. picks_neighbor c1_kialo (with_draws (world_of one_turn) a b)
                               ''C1'') = 1"
    using claim [of "''C1''" "''C1a''"] by simp
  have p2: "chance 2 (\<lambda>a b. picks_neighbor c1_kialo (with_draws (world_of one_turn) a b) ''C1''
                       \<and> replies c1_kialo (with_draws (world_of one_turn) a b) ''C1a'') = 1 / 2"
    using claim [of "''C1''" "''C1a''"] c by simp
  have p3: "chance 2 (\<lambda>a b. picks_neighbor c1_kialo (with_draws (world_of one_turn) a b) ''C1''
                       \<and> replies c1_kialo (with_draws (world_of one_turn) a b) ''C1b'') = 1 / 2"
    using claim [of "''C1''" "''C1b''"] c by simp
  have p4: "fst (KialoAgent_response c1_kialo (world_of one_turn)) \<in> {Inr ''C1a'', Inr ''C1b''}"
    using claim [of "''C1''" "''C1a''"] c by simp
  from d n [symmetric] c dn dc2 p1 p2 p3 p4 show ?thesis
    by (intro conjI)
qed

subsection \<open>The reply to an empty dialogue\<close>

text \<open>
  Claim C2: on an empty dialogue, the response of \<open>KialoAgent\<close> and of \<open>KialoAgent2\<close> is
  element 0 of the chain that \<open>random_chain()\<close> returns (so the first claim of any chain
  that has one), the only call made is that call of \<open>random_chain\<close>, and
  \<open>closest_claims\<close> is not called.
\<close>

theorem empty_dialogue_first_of_chain:
  assumes "dialogue w = []"
  shows "fst (KialoAgent_response kialo w) = getitem (random_chain kialo (rng w (rng_pos w))) 0
       \<and> fst (KialoAgent2_response kialo w) = getitem (random_chain kialo (rng w (rng_pos w))) 0
       \<and> (\<forall>c cs. random_chain kialo (rng w (rng_pos w)) = c # cs \<longrightarrow>
             fst (KialoAgent_response kialo w) = Inr c
           \<and> fst (KialoAgent2_response kialo w) = Inr c)
       \<and> calls_of (KialoAgent_response kialo) w = [RandomChain]
       \<and> calls_of (KialoAgent2_response kialo) w = [RandomChain]
       \<and> closest_queries (calls_of (KialoAgent_response kialo) w) = []
       \<and> closest_queries (calls_of (KialoAgent2_response kialo) w) = []"
  using assms by (simp add: KialoAgent_empty KialoAgent2_empty calls_of_def getitem_first)

theorem empty_dialogue_first_of_chain_witness:
  "dialogue (world_of []) = []
   \<and> random_chain c1_kialo (rng (world_of []) (rng_pos (world_of []))) = [''C1'', ''C1a'']
   \<and> fst (KialoAgent_response c1_kialo (world_of [])) = Inr ''C1''
   \<and> fst (KialoAgent2_response c1_kialo (world_of [])) = Inr ''C1''
   \<and> calls_of (KialoAgent_response c1_kialo) (world_of []) = [RandomChain]
   \<and> calls_of (KialoAgent2_response c1_kialo) (world_of []) = [RandomChain]"
  using empty_dialogue_first_of_chain [of "world_of []" c1_kialo]
  by (simp add: world_of_def c1_kialo_def getitem_first)

subsection \<open>The assertion\<close>

text \<open>
  Claim C3: on a non-empty dialogue, \<open>KialoAgent.response\<close> and \<open>KialoAgent2.response\<close>
  end with an AssertionError exactly when \<open>closest_claims(query, n=3, kind='has_cons')\<close>
  returns an empty sequence, the query being the last turn's content for the first agent
  and the joined repeated contents for the second. The error is raised (the outcome is
  not a returned string) and carries the message of the \<open>assert\<close> statement.
\<close>

theorem assertion_iff_no_neighbors:
  assumes "dialogue w \<noteq> []"
  shows "((\<exists>msg. fst (KialoAgent_response kialo w) = Inl (AssertionError msg))
            \<longleftrightarrow> closest_claims kialo (content (last (dialogue w))) (Some 3) ''has_cons'' = [])
       \<and> ((\<exists>msg. fst (KialoAgent2_response kialo w) = Inl (AssertionError msg))
            \<longleftrightarrow> closest_claims kialo (query2 (dialogue w)) (Some 3) ''has_cons'' = [])
       \<and> (closest_claims kialo (content (last (dialogue w))) (Some 3) ''has_cons'' = []
            \<longrightarrow> fst (KialoAgent_response kialo w) = Inl (AssertionError no_claims_msg))
       \<and> (closest_claims kialo (query2 (dialogue w)) (Some 3) ''has_cons'' = []
            \<longrightarrow> fst (KialoAgent2_response kialo w) = Inl (AssertionError no_claims_msg))"
  using assms by (simp add: KialoAgent_nonempty KialoAgent2_nonempty Let_def)

theorem assertion_iff_no_neighbors_witness:
  "dialogue (world_of one_turn) \<noteq> []
   \<and> closest_claims empty_kialo (content (last (dialogue (world_of one_turn)))) (Some 3) ''has_cons''
       = []
   \<and> closest_claims empty_kialo (query2 (dialogue (world_of one_turn))) (Some 3) ''has_cons'' = []
   \<and> fst (KialoAgent_response empty_kialo (world_of one_turn)) = Inl (AssertionError no_claims_msg)
   \<and> fst (KialoAgent2_response empty_kialo (world_of one_turn)) = Inl (AssertionError no_claims_msg)"
  using assertion_iff_no_neighbors [of "world_of one_turn" empty_kialo]
  by (simp add: world_of_def one_turn_def empty_kialo_def)

subsection \<open>The query of the second agent\<close>

text \<open>
  Claim C4: on a non-empty dialogue, \<open>KialoAgent2.response\<close> calls \<open>closest_claims\<close> once,
  with \<open>n=3\<close>, \<open>kind='has_cons'\<close> and the query of policy B: for the turns of the dialogue
  in order, turn \<open>i\<close>'s content repeated \<open>i + 1\<close> times, joined with \<open>;\<close>.
\<close>

theorem KialoAgent2_query:
  assumes "dialogue w \<noteq> []"
  shows "closest_queries (calls_of (KialoAgent2_response kialo) w)
           = [(policy_B (dialogue w), Some 3, ''has_cons'')]"
  using assms by (simp add: KialoAgent2_nonempty calls_of_def Let_def query2_policy_B)

theorem KialoAgent2_query_witness:
  "dialogue (world_of two_turns) \<noteq> []
   \<and> closest_queries (calls_of (KialoAgent2_response c1_kialo) (world_of two_turns))
       = [(''ab;cc'', Some 3, ''has_cons'')]"
  using KialoAgent2_query [of "world_of two_turns" c1_kialo]
  by (simp add: world_of_def two_turns_def policy_B_def)

subsection \<open>The two agents on a one-turn dialogue\<close>

text \<open>
  Claim C10: on a dialogue of exactly one turn, the query of \<open>KialoAgent2.response\<close>
  equals the query of \<open>KialoAgent.response\<close> (the content of the last turn), the two
  methods make the same \<open>closest_claims\<close> calls, and started in the same world (so with
  the same random draws) they have the same outcome and leave the same world.
\<close>

theorem one_turn_agents_agree:
  assumes "length (dialogue w) = 1"
  shows "query2 (dialogue w) = policy_A (dialogue w)
       \<and> closest_queries (calls_of (KialoAgent2_response kialo) w)
           = closest_queries (calls_of (KialoAgent_response kialo) w)
       \<and> KialoAgent2_response kialo w = KialoAgent_response kialo w"
proof -
  from assms obtain t where d: "dialogue w = [t]"
    by (cases "dialogue w") auto
  then have q: "query2 (dialogue w) = content (last (dialogue w))"
    by (simp add: query2_def str_mul_def)
  from d have "dialogue w \<noteq> []" by simp
  then have "KialoAgent2_response kialo w = KialoAgent_response kialo w"
    by (simp add: KialoAgent_nonempty KialoAgent2_nonempty q)
  with q show ?thesis by (simp add: policy_A_def calls_of_def)
qed

theorem one_turn_agents_agree_witness:
  "length (dialogue (world_of one_turn)) = 1
   \<and> query2 (dialogue (world_of one_turn)) = ''Hello''
   \<and> policy_A (dialogue (world_of one_turn)) = ''Hello''
   \<and> KialoAgent2_response c1_kialo (world_of one_turn)
       = KialoAgent_response c1_kialo (world_of one_turn)"
  using one_turn_agents_agree [of "world_of one_turn" c1_kialo]
  by (simp add: world_of_def one_turn_def policy_A_def)

subsection \<open>Running kialo\_responses and the retrieval-augmented agent\<close>

lemma kialo_responses_run:
  "kialo_responses kialo s w =
     (let w1 = w\<lparr>events := events w @ [ClosestClaims s None ''has_cons'']\<rparr>
      in case closest_claims kialo s None ''has_cons'' of
           [] \<Rightarrow> (Inl IndexError, w1)
         | c # _ \<Rightarrow>
            (Inr (''One possibly related claim from the Kialo debate website:''
                   @ newline @ tab @ dquote @ c @ dquote
                   @ (if pros kialo c \<noteq> []
                      then newline @ join bullet (pros_header # pros kialo c) else [])
                   @ (if cons kialo c \<noteq> []
                      then newline @ join bullet (cons_header # cons kialo c) else [])),
             w1))"
  by (simp add: kialo_responses_def prog_defs getitem_first Let_def split: list.splits)

text \<open>The run of \<open>RAG_Agent.response\<close> when no keyword is given twice.\<close>

lemma RAG_Agent_run:
  assumes "duplicate_keywords [''speaker''] (kwargs_format self) = []"
    and "duplicate_keywords [''messages'', ''model''] (dict_union (kwargs_llm self) kw) = []"
  shows "RAG_Agent_response dialogue_to_openai self kialo kw w =
     (let messages = dialogue_to_openai (dialogue w) (name self) (kwargs_format self);
          kws = dict_union (kwargs_llm self) kw;
          w1 = w\<lparr>events := events w @ [LogInfo (calling_msg self messages),
                                          ChatCreate messages (model self) kws]\<rparr>
      in case client_create self messages (model self) kws of
           Inl e \<Rightarrow> (Inl e, w1)
         | Inr response \<Rightarrow>
             let w2 = w1\<lparr>events := events w1 @ [LogDebug (response_msg (shown response))]\<rparr>
             in (case choices response of
                   [] \<Rightarrow> (Inl IndexError, w2)
                 | choice # _ \<Rightarrow>
                     (case message_content choice of
                        None \<Rightarrow> (Inl (ValueError no_content_msg), w2)
                      | Some content0 \<Rightarrow>
                          (Inr (clean_up self choice content0),
                           if log_level w > DEBUG
                           then w2\<lparr>events := events w2
                                    @ [LogInfo (response_msg (clean_up self choice content0))]\<rparr>
                           else w2))))"
  using assms
  by (simp add: RAG_Agent_response_def prog_defs getitem_first Let_def
           split: sum.splits list.splits option.splits)

text \<open>The run when a keyword is given twice: a TypeError, before the function called
  is entered.\<close>

lemma RAG_Agent_run_speaker_twice:
  assumes "duplicate_keywords [''speaker''] (kwargs_format self) = k # ks"
  shows "RAG_Agent_response dialogue_to_openai self kialo kw w = (Inl (TypeError k), w)"
  using assms by (simp add: RAG_Agent_response_def prog_defs)

lemma RAG_Agent_run_keyword_twice:
  assumes "duplicate_keywords [''speaker''] (kwargs_format self) = []"
    and "duplicate_keywords [''messages'', ''model''] (dict_union (kwargs_llm self) kw) = k # ks"
  shows "RAG_Agent_response dialogue_to_openai self kialo kw w =
     (Inl (TypeError k),
      w\<lparr>events := events w
          @ [LogInfo (calling_msg self
                        (dialogue_to_openai (dialogue w) (name self) (kwargs_format self)))]\<rparr>)"
  using assms by (simp add: RAG_Agent_response_def prog_defs Let_def)

lemma no_duplicates_rag_alice:
  "duplicate_keywords [''speaker''] (kwargs_format (rag_alice completion)) = []"
  "duplicate_keywords [''messages'', ''model'']
     (dict_union (kwargs_llm (rag_alice completion)) []) = []"
  by (simp_all add: duplicate_keywords_def dict_union_def rag_alice_def)

subsection \<open>Retrieval in the retrieval-augmented agent\<close>

text \<open>The method never looks at the graph it is given: it makes no \<open>closest_claims\<close>
  call, and its one request to the service carries the messages of
  \<open>dialogue_to_openai\<close> as they are.\<close>

lemma RAG_Agent_ignores_kialo:
  "RAG_Agent_response dialogue_to_openai self kialo kw
     = RAG_Agent_response dialogue_to_openai self kialo' kw"
  by (simp add: RAG_Agent_response_def)

lemma RAG_Agent_never_retrieves:
  "closest_queries (calls_of (RAG_Agent_response dialogue_to_openai self kialo kw) w) = []
   \<and> chat_requests (calls_of (RAG_Agent_response dialogue_to_openai self kialo kw) w)
        = (if duplicate_keywords [''speaker''] (kwargs_format self) = []
              \<and> duplicate_keywords [''messages'', ''model'']
                   (dict_union (kwargs_llm self) kw) = []
           then [dialogue_to_openai (dialogue w) (name self) (kwargs_format self)]
           else [])"
proof (cases "duplicate_keywords [''speaker''] (kwargs_format self)")
  case (Cons k ks)
  then show ?thesis by (simp add: RAG_Agent_run_speaker_twice calls_of_def)
next
  case Nil
  show ?thesis
  proof (cases "duplicate_keywords [''messages'', ''model''] (dict_union (kwargs_llm self) kw)")
    case (Cons k ks)
    with Nil show ?thesis by (simp add: RAG_Agent_run_keyword_twice calls_of_def)
  next
    case Nil': Nil
    with Nil show ?thesis
      by (simp add: RAG_Agent_run calls_of_def Let_def
          split: sum.splits list.splits option.splits)
  qed
qed

text \<open>
  Claim C5 says that \<open>RAG_Agent.response\<close> builds a context block from \<open>closest_claims\<close>
  (as \<open>kialo_responses\<close> does) and puts it in front of the messages. The code does not:
  for the one-turn dialogue and the graph with \<open>C1\<close>, no \<open>closest_claims\<close> call is made and
  the request holds the single message of the dialogue, although \<open>kialo_responses\<close> has a
  block to offer for that turn.
\<close>

theorem RAG_Agent_sends_no_context:
  "closest_queries (calls_of (RAG_Agent_response plain_messages (rag_alice full_completion)
                                c1_kialo []) (world_of one_turn)) = []
   \<and> chat_requests (calls_of (RAG_Agent_response plain_messages (rag_alice full_completion)
                                c1_kialo []) (world_of one_turn))
        = [[\<lparr>role = ''user'', m_content = ''Hello''\<rparr>]]
   \<and> fst (kialo_responses c1_kialo ''Hello'' (world_of one_turn))
        = Inr (''One possibly related claim from the Kialo debate website:''
               @ newline @ tab @ dquote @ ''C1'' @ dquote
               @ newline @ cons_header @ bullet @ ''C1a'' @ bullet @ ''C1b'')"
  unfolding calls_of_def RAG_Agent_run [OF no_duplicates_rag_alice]
  by (simp add: kialo_responses_run Let_def rag_alice_def full_completion_def world_of_def
      one_turn_def c1_kialo_def plain_messages_def dict_union_def)

subsection \<open>A completion without text\<close>

text \<open>An exception of the client passes through the method as it is.\<close>

lemma RAG_Agent_client_error:
  assumes "duplicate_keywords [''speaker''] (kwargs_format self) = []"
    and "duplicate_keywords [''messages'', ''model''] (dict_union (kwargs_llm self) kw) = []"
    and "client_create self (dialogue_to_openai (dialogue w) (name self) (kwargs_format self))
           (model self) (dict_union (kwargs_llm self) kw) = Inl e"
  shows "fst (RAG_Agent_response dialogue_to_openai self kialo kw w) = Inl e"
  using assms by (simp add: RAG_Agent_run Let_def)

text \<open>
  Claim C6, as stated, ties the failure to a completion without text in both directions.
  The error that the method raises for such a completion is the built-in ValueError
  (there is no class of its own for it), and nothing in the method catches a ValueError
  of the client: with a client that refuses the request with a ValueError, the method
  fails with a ValueError although the service has returned no completion at all.
\<close>

theorem client_value_error_counterexample:
  "fst (RAG_Agent_response plain_messages rag_refused c1_kialo [] (world_of one_turn))
     = Inl (ValueError refused_msg)
   \<and> client_create rag_refused
        (plain_messages (dialogue (world_of one_turn)) (name rag_refused)
           (kwargs_format rag_refused))
        (model rag_refused) (dict_union (kwargs_llm rag_refused) [])
     = Inl (ValueError refused_msg)
   \<and> fst (RAG_Agent_response plain_messages (rag_alice silent_completion) c1_kialo []
            (world_of one_turn))
     = Inl (ValueError no_content_msg)"
proof -
  have "duplicate_keywords [''speaker''] (kwargs_format rag_refused) = []"
    and "duplicate_keywords [''messages'', ''model'']
           (dict_union (kwargs_llm rag_refused) []) = []"
    by (simp_all add: duplicate_keywords_def dict_union_def rag_refused_def)
  then have "fst (RAG_Agent_response plain_messages rag_refused c1_kialo [] (world_of one_turn))
               = Inl (ValueError refused_msg)"
    by (rule RAG_Agent_client_error) (simp add: rag_refused_def)
  moreover have "fst (RAG_Agent_response plain_messages (rag_alice silent_completion) c1_kialo []
                        (world_of one_turn)) = Inl (ValueError no_content_msg)"
    unfolding RAG_Agent_run [OF no_duplicates_rag_alice]
    by (simp add: Let_def rag_alice_def silent_completion_def)
  ultimately show ?thesis by (simp add: rag_refused_def)
qed

text \<open>
  Claim C6, amended: whenever the method's request reaches the service (no keyword is
  given twice in the two calls) and the service returns a completion, the method fails
  with a ValueError exactly when the chosen message content of that completion is not
  a text string; the error is then the ValueError of the method's own \<open>raise\<close>
  statement, with its message, and it is the outcome of the call, handed to the caller.
\<close>

theorem no_content_error_of_completion:
  assumes "service_returns dialogue_to_openai self kw w response"
  shows "((\<exists>msg. fst (RAG_Agent_response dialogue_to_openai self kialo kw w)
                   = Inl (ValueError msg))
            \<longleftrightarrow> (\<exists>choice rest. choices response = choice # rest
                               \<and> message_content choice = None))
       \<and> ((\<exists>choice rest. choices response = choice # rest \<and> message_content choice = None)
            \<longrightarrow> fst (RAG_Agent_response dialogue_to_openai self kialo kw w)
                  = Inl (ValueError no_content_msg))"
  using assms
  by (auto simp add: service_returns_def RAG_Agent_run Let_def
           split: list.splits option.splits)

theorem no_content_error_of_completion_witness:
  "service_returns plain_messages (rag_alice silent_completion) [] (world_of one_turn)
     silent_completion
   \<and> choices silent_completion = [\<lparr>message_content = None, finish_reason = ''tool_calls''\<rparr>]
   \<and> fst (RAG_Agent_response plain_messages (rag_alice silent_completion) c1_kialo []
            (world_of one_turn)) = Inl (ValueError no_content_msg)"
proof -
  have r: "service_returns plain_messages (rag_alice silent_completion) [] (world_of one_turn)
             silent_completion"
    by (simp add: service_returns_def no_duplicates_rag_alice) (simp add: rag_alice_def)
  have c: "choices silent_completion
             = [\<lparr>message_content = None, finish_reason = ''tool_calls''\<rparr>]"
    by (simp add: silent_completion_def)
  then have "\<exists>choice rest. choices silent_completion = choice # rest
                           \<and> message_content choice = None"
    by simp
  with no_content_error_of_completion [OF r, of c1_kialo]
  have "fst (RAG_Agent_response plain_messages (rag_alice silent_completion) c1_kialo []
               (world_of one_turn)) = Inl (ValueError no_content_msg)"
    by blast
  with r c show ?thesis by simp
qed

subsection \<open>The clean-up of a completion\<close>

lemma label_ends_with_space:
  assumes "body @ tail = nm @ '': ''" and "tail \<noteq> []"
  shows "last tail = CHR '' ''"
proof -
  from assms(1) have "last (body @ tail) = last (nm @ '': '')" by (rule arg_cong)
  with assms(2) show ?thesis by simp
qed

text \<open>Appending the marker makes a content start with the speaker label in one case
  only: when the content is the name followed by a colon.\<close>

lemma marker_keeps_label_out:
  assumes "\<not> startswith content0 (nm @ '': '')" and "content0 \<noteq> nm @ '':''"
  shows "\<not> startswith (content0 @ '' ...'') (nm @ '': '')"
proof
  assume "startswith (content0 @ '' ...'') (nm @ '': '')"
  then have t: "take (length nm + 2) content0 @ take (length nm + 2 - length content0) '' ...''
                  = nm @ '': ''"
    by (simp add: startswith_def)
  show False
  proof (cases "length nm + 2 \<le> length content0")
    case True
    with t have "take (length nm + 2) content0 = nm @ '': ''" by simp
    with assms(1) show False by (simp add: startswith_def)
  next
    case False
    define k where "k = length nm + 2 - length content0"
    from False have k: "0 < k" and c: "take (length nm + 2) content0 = content0"
      by (simp_all add: k_def)
    from t c have eq: "content0 @ take k '' ...'' = nm @ '': ''"
      by (simp add: k_def)
    consider "k = 1" | "k = 2" | "k = 3" | "4 \<le> k" using k by linarith
    then show False
    proof cases
      case 1
      with eq have "content0 = nm @ '':''" by simp
      with assms(2) show False by simp
    next
      case 2
      with eq have "content0 @ '' .'' = nm @ '': ''" by (simp add: numeral_2_eq_2)
      from label_ends_with_space [OF this] show False by simp
    next
      case 3
      with eq have "content0 @ '' ..'' = nm @ '': ''" by (simp add: numeral_3_eq_3)
      from label_ends_with_space [OF this] show False by simp
    next
      case 4
      with eq have "content0 @ '' ...'' = nm @ '': ''" by simp
      from label_ends_with_space [OF this] show False by simp
    qed
  qed
qed

text \<open>Apart from that case, a completion cut off by the length limit comes back with
  its label removed, if it had one, and the marker at its end.\<close>

lemma clean_up_length:
  assumes "finish_reason choice = ''length''" and "content0 \<noteq> name self @ '':''"
  shows "clean_up self choice content0 =
           (if startswith content0 (name self @ '': '')
            then drop (length (name self @ '': '')) content0 else content0) @ '' ...''"
proof (cases "startswith content0 (name self @ '': '')")
  case True
  then have "length (take (length (name self @ '': '')) content0) = length (name self @ '': '')"
    by (simp only: startswith_def)
  then have "length (name self @ '': '') \<le> length content0"
    by simp
  with True assms(1) show ?thesis
    by (simp add: clean_up_def startswith_def Let_def)
next
  case False
  from marker_keeps_label_out [OF False assms(2)] False assms(1)
  show ?thesis by (simp add: clean_up_def Let_def)
qed

lemma clean_up_strips_label:
  "clean_up self choice ((name self @ '': '') @ body) =
     (if finish_reason choice = ''length'' then body @ '' ...'' else body)"
  by (simp add: clean_up_def startswith_def Let_def)

text \<open>
  Claim C7 says that every completion with \<open>finish_reason = 'length'\<close> and a string
  content comes back ending with the marker \<open>" ..."\<close>. The code appends the marker before
  it looks for the speaker label, so for the agent Alice and the raw content \<open>Alice:\<close> the
  marker's space completes the label \<open>"Alice: "\<close> and is removed with it: the method
  returns \<open>...\<close>, which does not end with \<open>" ..."\<close>.
\<close>

theorem cut_off_label_loses_marker:
  "fst (RAG_Agent_response plain_messages (rag_alice cut_off_completion) c1_kialo []
          (world_of one_turn)) = Inr ''...''"
  unfolding RAG_Agent_run [OF no_duplicates_rag_alice]
  by (simp add: Let_def rag_alice_def cut_off_completion_def world_of_def one_turn_def
      plain_messages_def dict_union_def clean_up_def startswith_def)

subsection \<open>The dialogue after a call\<close>

text \<open>
  Claim C8: for every dialogue and each of \<open>KialoAgent\<close>, \<open>KialoAgent2\<close> and \<open>RAG_Agent\<close>,
  the Dialogue object passed to \<open>response\<close> is the same after the call as before it,
  whether the call returns or raises.
\<close>

theorem response_keeps_dialogue:
  "dialogue (snd (KialoAgent_response kialo w)) = dialogue w
   \<and> dialogue (snd (KialoAgent2_response kialo w)) = dialogue w
   \<and> dialogue (snd (RAG_Agent_response dialogue_to_openai self kialo kw w)) = dialogue w"
proof (intro conjI)
  show "dialogue (snd (KialoAgent_response kialo w)) = dialogue w"
    by (cases "dialogue w = []") (simp_all add: KialoAgent_empty KialoAgent_nonempty Let_def)
  show "dialogue (snd (KialoAgent2_response kialo w)) = dialogue w"
    by (cases "dialogue w = []") (simp_all add: KialoAgent2_empty KialoAgent2_nonempty Let_def)
  show "dialogue (snd (RAG_Agent_response dialogue_to_openai self kialo kw w)) = dialogue w"
  proof (cases "duplicate_keywords [''speaker''] (kwargs_format self)")
    case (Cons k ks)
    then show ?thesis by (simp add: RAG_Agent_run_speaker_twice)
  next
    case Nil
    show ?thesis
    proof (cases "duplicate_keywords [''messages'', ''model''] (dict_union (kwargs_llm self) kw)")
      case (Cons k ks)
      with Nil show ?thesis by (simp add: RAG_Agent_run_keyword_twice)
    next
      case Nil': Nil
      with Nil show ?thesis
        by (simp add: RAG_Agent_run Let_def split: sum.splits list.splits option.splits)
    qed
  qed
qed

subsection \<open>kialo\_responses on an empty result\<close>

lemma kialo_responses_empty:
  "closest_claims kialo s None ''has_cons'' = []
     \<Longrightarrow> fst (kialo_responses kialo s w) = Inl IndexError"
  by (simp add: kialo_responses_run Let_def)

text \<open>
  Claim C9 says that \<open>kialo_responses\<close> does not fail when \<open>closest_claims\<close> returns an
  empty sequence. The code takes element 0 of the result without a check: on the graph
  without claims the call raises IndexError.
\<close>

theorem kialo_responses_unguarded:
  "fst (kialo_responses empty_kialo ''Hello'' (world_of one_turn)) = Inl IndexError"
  by (simp add: kialo_responses_run empty_kialo_def Let_def)

end
